theory Spec2Isabelle
  imports Complex_Main
begin

section \<open>Environment-map pipeline: PMREMGenerator\<close>

text \<open>
  The numbers of the program are JavaScript and GLSL floating-point numbers. They are
  modelled as exact reals (sizes, counts and indices as integers), so a statement below
  is a statement about the arithmetic the code writes down, not about its rounding;
  the one exception is the pair of bucket expressions of the accessibility label, whose
  operations are rounded as IEEE doubles are (see there).
  Infinities and NaN are not values of the model: where JavaScript divides by zero, a
  statement about the quotient assumes a divisor other than zero.
\<close>

subsection \<open>The two fragment shaders\<close>

type_synonym vec2 = "real \<times> real"
type_synonym vec3 = "real \<times> real \<times> real"

text \<open>\<^verbatim>\<open>getFace\<close> of the mipmap shader. The variable \<^verbatim>\<open>face\<close> starts at -1 and
  is assigned in each of the four inner branches.\<close>

definition getFace :: "vec3 \<Rightarrow> int" where
  "getFace direction =
     (case direction of (dx, dy, dz) \<Rightarrow>
        let ax = \<bar>dx\<bar>; ay = \<bar>dy\<bar>; az = \<bar>dz\<bar>;
            face = (- 1 :: int)
        in if ax > az then
             (if ax > ay then (if dx > 0 then 0 else 3)
              else (if dy > 0 then 1 else 4))
           else
             (if az > ay then (if dz > 0 then 2 else 5)
              else (if dy > 0 then 1 else 4)))"

text \<open>\<^verbatim>\<open>getDirection\<close> as the mipmap (downsample) shader declares it.\<close>

definition getDirection_mipmap :: "vec2 \<Rightarrow> int \<Rightarrow> vec3" where
  "getDirection_mipmap uv0 face =
     (let uv = (2 * fst uv0 - 1, 2 * snd uv0 - 1)
      in if face = 0 then (1, fst uv, snd uv)
         else if face = 1 then (fst uv, 1, snd uv)
         else if face = 2 then (fst uv, snd uv, 1)
         else if face = 3 then (- 1, fst uv, snd uv)
         else if face = 4 then (fst uv, - 1, snd uv)
         else (fst uv, snd uv, - 1))"

text \<open>\<^verbatim>\<open>getDirection\<close> as the packing shader declares it (a second copy of the
  text in the source).\<close>

definition getDirection_packing :: "vec2 \<Rightarrow> int \<Rightarrow> vec3" where
  "getDirection_packing uv0 face =
     (let uv = (2 * fst uv0 - 1, 2 * snd uv0 - 1)
      in if face = 0 then (1, fst uv, snd uv)
         else if face = 1 then (fst uv, 1, snd uv)
         else if face = 2 then (fst uv, snd uv, 1)
         else if face = 3 then (- 1, fst uv, snd uv)
         else if face = 4 then (fst uv, - 1, snd uv)
         else (fst uv, snd uv, - 1))"

subsection \<open>Render targets, meshes and the generator's fields\<close>

datatype texture_filter = NearestFilter | LinearFilter

datatype texture_mapping = UVMapping | CubeReflectionMapping | CubeUVReflectionMapping

text \<open>The options object \<^verbatim>\<open>params\<close> that \<^verbatim>\<open>setup\<close> builds from the source cubemap's
  texture; format, type, anisotropy and encoding are three.js constants, kept as numbers.\<close>

record target_params =
  format :: nat
  magFilter :: texture_filter
  minFilter :: texture_filter
  type :: nat
  generateMipmaps :: bool
  anisotropy :: nat
  encoding :: nat

record texture =
  tex_name :: string
  tex_params :: target_params
  tex_mapping :: texture_mapping

text \<open>A \<^verbatim>\<open>WebGLRenderTarget\<close> or \<^verbatim>\<open>WebGLRenderTargetCube\<close>.\<close>

record render_target =
  width :: int
  height :: int
  texture :: texture

text \<open>A \<^verbatim>\<open>CubeCamera(near, far, size)\<close>; \<^verbatim>\<open>cam_size\<close> is the width of its own render
  target.\<close>

record cube_camera =
  cam_near :: real
  cam_far :: real
  cam_size :: int

record ortho_camera =
  left :: real
  right :: real
  top :: real
  bottom :: real
  near :: real
  far :: real

text \<open>One plane mesh of the packing scene, with the uniforms of its material.\<close>

record plane_mesh =
  uv_array :: "real list"
  invMapSize :: real
  envMap :: texture
  faceIndex :: nat
  position_x :: int
  position_y :: int
  scale :: int

datatype scene_node = BoxMesh | Camera cube_camera

record pmrem =
  cubeCamera :: "cube_camera option"
  flatCamera :: ortho_camera
  mipmapScene :: "scene_node list"
  packingScene :: "plane_mesh list"
  mipmap_invMapSize :: real
  mipmap_envMap :: "texture option"
  numLods :: int
  cubeLods :: "render_target list"
  cubeUVRenderTarget :: "render_target option"
  objects :: "plane_mesh list"

text \<open>\<^verbatim>\<open>Scene.add\<close> of three.js: a node that already has a parent is taken out of it
  before it is appended.\<close>

definition scene_add :: "'a \<Rightarrow> 'a list \<Rightarrow> 'a list" where
  "scene_add x xs = remove1 x xs @ [x]"

definition scene_remove :: "'a \<Rightarrow> 'a list \<Rightarrow> 'a list" where
  "scene_remove x xs = remove1 x xs"

text \<open>The field initialisers and the constructor.\<close>

definition PMREMGenerator_new :: pmrem where
  "PMREMGenerator_new =
     \<lparr> cubeCamera = None,
       flatCamera = \<lparr> left = - 1, right = 1, top = 1, bottom = - 1, near = 0.1, far = 2000 \<rparr>,
       mipmapScene = [BoxMesh],
       packingScene = [],
       mipmap_invMapSize = 0.5,
       mipmap_envMap = None,
       numLods = - 1,
       cubeLods = [],
       cubeUVRenderTarget = None,
       objects = [] \<rparr>"

text \<open>The uv attribute of three.js's \<^verbatim>\<open>PlaneBufferGeometry(1, 1)\<close>, which
  \<^verbatim>\<open>addLodObjects\<close> clones.\<close>

definition plane_uv :: "real list" where
  "plane_uv = [0, 1, 1, 1, 0, 0, 1, 0]"

text \<open>The first loop of \<^verbatim>\<open>addLodObjects\<close>; a coordinate other than 0 or 1 is left as
  it is (the source reports it on the console and goes on).\<close>

definition padUv :: "real \<Rightarrow> real \<Rightarrow> real" where
  "padUv invSize u = (if u = 0 then - invSize else if u = 1 then 1 + invSize else u)"

definition lodObject :: "render_target \<Rightarrow> int \<Rightarrow> nat \<Rightarrow> plane_mesh" where
  "lodObject target offset k =
     (let sizeLod = width target;
          sizePad = sizeLod + 2;
          invSize = 1 / real_of_int sizeLod
      in \<lparr> uv_array = map (padUv invSize) plane_uv,
           invMapSize = invSize,
           envMap = texture target,
           faceIndex = k,
           position_x = (int k mod 3) * sizePad,
           position_y = (if k > 2 then 1 else 0) * sizePad + offset,
           scale = sizePad \<rparr>)"

definition addLodObjects :: "render_target \<Rightarrow> int \<Rightarrow> pmrem \<Rightarrow> pmrem" where
  "addLodObjects target offset g =
     g\<lparr>objects := objects g @ map (lodObject target offset) [0..<6]\<rparr>"

definition newCubeTarget :: "int \<Rightarrow> target_params \<Rightarrow> nat \<Rightarrow> render_target" where
  "newCubeTarget sizeLod params i =
     \<lparr> width = sizeLod, height = sizeLod,
       texture = \<lparr> tex_name = ''PMREMGenerator.cube'' @ [char_of (48 + i)],
                   tex_params = params, tex_mapping = UVMapping \<rparr> \<rparr>"

text \<open>The loop \<^verbatim>\<open>for (let i = 0; i < numLods + 1; i++)\<close> of \<^verbatim>\<open>setup\<close>, over the
  list of its indices, with the running \<^verbatim>\<open>offset\<close>.\<close>

fun setupLods :: "render_target \<Rightarrow> target_params \<Rightarrow> nat list \<Rightarrow> int \<Rightarrow> pmrem \<Rightarrow> pmrem" where
  "setupLods cubeTarget params [] offset g = g"
| "setupLods cubeTarget params (i # is) offset g =
     (let sizeLod = (2 :: int) ^ i;
          sizePad = sizeLod + 2;
          g1 = (if length (cubeLods g) \<le> i then
                  (if sizeLod = width cubeTarget then addLodObjects cubeTarget offset g
                   else
                     let renderTarget = newCubeTarget sizeLod params i
                     in addLodObjects renderTarget offset
                          (g\<lparr>cubeLods := cubeLods g @ [renderTarget]\<rparr>))
                else g)
      in setupLods cubeTarget params is (offset + 2 * sizePad) g1)"

text \<open>The method \<^verbatim>\<open>setup\<close> (named \<open>setup_pmrem\<close> here).\<close>

definition setup_pmrem :: "render_target \<Rightarrow> pmrem \<Rightarrow> pmrem" where
  "setup_pmrem cubeTarget g =
     (let size = width cubeTarget;
          cam = (case cubeCamera g of
                   None \<Rightarrow> \<lparr> cam_near = 0.1, cam_far = 100, cam_size = size \<rparr>
                 | Some c \<Rightarrow> if cam_size c \<noteq> size
                            then \<lparr> cam_near = 0.1, cam_far = 100, cam_size = size \<rparr>
                            else c);
          g1 = g\<lparr>cubeCamera := Some cam, mipmapScene := scene_add (Camera cam) (mipmapScene g)\<rparr>;
          params = \<lparr> format = format (tex_params (texture cubeTarget)),
                     magFilter = NearestFilter,
                     minFilter = NearestFilter,
                     type = type (tex_params (texture cubeTarget)),
                     generateMipmaps = False,
                     anisotropy = anisotropy (tex_params (texture cubeTarget)),
                     encoding = encoding (tex_params (texture cubeTarget)) \<rparr>;
          numLods' = (8 :: nat);
          g2 = setupLods cubeTarget params [0..<numLods' + 1] 0 g1
      in if int numLods' \<noteq> numLods g2 then
           let atlas = \<lparr> width = 3 * (2 ^ numLods' + 2),
                         height = 4 * int numLods' + 2 * (2 ^ (numLods' + 1) - 1),
                         texture = \<lparr> tex_name = ''PMREMCubeUVPacker.cubeUv'',
                                     tex_params = params,
                                     tex_mapping = CubeUVReflectionMapping \<rparr> \<rparr>
           in g2\<lparr> numLods := int numLods',
                  cubeUVRenderTarget := Some atlas,
                  flatCamera := \<lparr> left = 0, right = real_of_int (width atlas),
                                   top = 0, bottom = real_of_int (height atlas),
                                   near = 0, far = 1 \<rparr> \<rparr>
         else g2)"

text \<open>The generator after \<^verbatim>\<open>setup\<close> has run for each source cubemap of a list, in order.\<close>

definition setups :: "render_target list \<Rightarrow> pmrem \<Rightarrow> pmrem" where
  "setups cubeTargets g = foldl (\<lambda>g' c. setup_pmrem c g') g cubeTargets"

subsection \<open>The renderer and the two render passes\<close>

datatype tone_mapping =
  NoToneMapping | LinearToneMapping | ReinhardToneMapping | Uncharted2ToneMapping
  | CineonToneMapping | ACESFilmicToneMapping

text \<open>The settings under which one pass was drawn.\<close>

record frame =
  f_toneMapping :: tone_mapping
  f_toneMappingExposure :: real
  f_gammaInput :: bool
  f_gammaOutput :: bool
  f_renderTarget :: "render_target option"

text \<open>The fields of three.js's \<^verbatim>\<open>WebGLRenderer\<close> that the generator reads and writes
  (\<open>renderTarget\<close> is what \<^verbatim>\<open>getRenderTarget\<close> returns and \<^verbatim>\<open>setRenderTarget\<close> sets;
  \<open>None\<close> is the canvas), and the passes drawn so far.\<close>

record renderer =
  toneMapping :: tone_mapping
  toneMappingExposure :: real
  gammaInput :: bool
  gammaOutput :: bool
  renderTarget :: "render_target option"
  frames :: "frame list"

datatype error = TypeError | RenderError

definition snapshot :: "renderer \<Rightarrow> frame" where
  "snapshot r =
     \<lparr> f_toneMapping = toneMapping r, f_toneMappingExposure = toneMappingExposure r,
       f_gammaInput = gammaInput r, f_gammaOutput = gammaOutput r,
       f_renderTarget = renderTarget r \<rparr>"

text \<open>
  One render pass (\<^verbatim>\<open>renderer.render\<close>, \<^verbatim>\<open>cubeCamera.update\<close>). Both belong to
  three.js, which is not part of the sources. What a pass does is the parameter
  \<open>pass\<close>: asked with the number of passes drawn before and the settings the pass is
  entered with, it either throws or gives the settings the pass leaves behind. A pass
  that returns has drawn one frame under the settings it was entered with.
\<close>

definition leave :: "frame \<Rightarrow> renderer \<Rightarrow> renderer" where
  "leave f r =
     r\<lparr>toneMapping := f_toneMapping f, toneMappingExposure := f_toneMappingExposure f,
       gammaInput := f_gammaInput f, gammaOutput := f_gammaOutput f,
       renderTarget := f_renderTarget f\<rparr>"

definition draw :: "(nat \<Rightarrow> frame \<Rightarrow> error + frame) \<Rightarrow> renderer \<Rightarrow> error + renderer" where
  "draw pass r =
     (case pass (length (frames r)) (snapshot r) of
        Inl e \<Rightarrow> Inl e
      | Inr f \<Rightarrow> Inr (leave f (r\<lparr>frames := frames r @ [snapshot r]\<rparr>)))"

text \<open>The loop \<^verbatim>\<open>for (let i = this.numLods - 1; i >= 0; i--)\<close> of
  \<^verbatim>\<open>generateMipmaps\<close>, over the list of its indices. Reading \<^verbatim>\<open>this.cubeLods[i]\<close>
  past the end gives \<^verbatim>\<open>undefined\<close>, and its \<^verbatim>\<open>width\<close> is then a TypeError, as is
  \<^verbatim>\<open>update\<close> on a null cube camera. The result carries the error, if any, and the
  state in which the call ends.\<close>

fun mipmapPasses ::
  "(nat \<Rightarrow> frame \<Rightarrow> error + frame) \<Rightarrow> nat list \<Rightarrow> pmrem \<Rightarrow> renderer \<Rightarrow> error option \<times> pmrem \<times> renderer" where
  "mipmapPasses pass [] g r = (None, g, r)"
| "mipmapPasses pass (i # is) g r =
     (let lod = (if i < length (cubeLods g) then Some (cubeLods g ! i) else None);
          r1 = r\<lparr>renderTarget := lod\<rparr>
      in case cubeCamera g of
           None \<Rightarrow> (Some TypeError, g, r1)
         | Some cam \<Rightarrow>
             (case draw pass r1 of
                Inl e \<Rightarrow> (Some e, g, r1)
              | Inr r2 \<Rightarrow>
                  (case lod of
                     None \<Rightarrow> (Some TypeError, g, r2)
                   | Some t \<Rightarrow>
                       mipmapPasses pass is
                         (g\<lparr>mipmap_invMapSize := 1 / real_of_int (width t),
                            mipmap_envMap := Some (texture t)\<rparr>) r2)))"

definition generateMipmaps ::
  "(nat \<Rightarrow> frame \<Rightarrow> error + frame) \<Rightarrow> render_target \<Rightarrow> pmrem \<Rightarrow> renderer \<Rightarrow> error option \<times> pmrem \<times> renderer" where
  "generateMipmaps pass cubeTarget g r =
     (let gammaInput0 = gammaInput r;
          gammaOutput0 = gammaOutput r;
          toneMapping0 = toneMapping r;
          toneMappingExposure0 = toneMappingExposure r;
          currentRenderTarget = renderTarget r;
          r1 = r\<lparr>toneMapping := LinearToneMapping, toneMappingExposure := 1,
                 gammaInput := False, gammaOutput := False\<rparr>;
          g1 = g\<lparr>mipmap_invMapSize := 1 / real_of_int (width cubeTarget),
                 mipmap_envMap := Some (texture cubeTarget)\<rparr>
      in case mipmapPasses pass (rev [0..<nat (numLods g)]) g1 r1 of
           (Some e, g2, r2) \<Rightarrow> (Some e, g2, r2)
         | (None, g2, r2) \<Rightarrow>
             (None, g2,
              r2\<lparr>renderTarget := currentRenderTarget, toneMapping := toneMapping0,
                 toneMappingExposure := toneMappingExposure0,
                 gammaInput := gammaInput0, gammaOutput := gammaOutput0\<rparr>))"

text \<open>The two loops of \<^verbatim>\<open>packMipmaps\<close> over \<^verbatim>\<open>this.objects[i]\<close>; an index past the
  end gives \<^verbatim>\<open>undefined\<close>, which three.js's \<^verbatim>\<open>add\<close> and \<^verbatim>\<open>remove\<close> do not take.\<close>

fun addObjects :: "plane_mesh list \<Rightarrow> nat list \<Rightarrow> plane_mesh list \<Rightarrow> plane_mesh list" where
  "addObjects objs [] scene = scene"
| "addObjects objs (i # is) scene =
     addObjects objs is (if i < length objs then scene_add (objs ! i) scene else scene)"

fun removeObjects :: "plane_mesh list \<Rightarrow> nat list \<Rightarrow> plane_mesh list \<Rightarrow> plane_mesh list" where
  "removeObjects objs [] scene = scene"
| "removeObjects objs (i # is) scene =
     removeObjects objs is (if i < length objs then scene_remove (objs ! i) scene else scene)"

definition packMipmaps ::
  "(nat \<Rightarrow> frame \<Rightarrow> error + frame) \<Rightarrow> pmrem \<Rightarrow> renderer \<Rightarrow> error option \<times> pmrem \<times> renderer" where
  "packMipmaps pass g r =
     (let g1 = g\<lparr>packingScene :=
                   addObjects (objects g) [0..<nat (6 * numLods g)] (packingScene g)\<rparr>;
          gammaInput0 = gammaInput r;
          gammaOutput0 = gammaOutput r;
          toneMapping0 = toneMapping r;
          toneMappingExposure0 = toneMappingExposure r;
          currentRenderTarget = renderTarget r;
          r1 = r\<lparr>gammaInput := False, gammaOutput := False,
                 toneMapping := LinearToneMapping, toneMappingExposure := 1,
                 renderTarget := cubeUVRenderTarget g1\<rparr>
      in case draw pass r1 of
           Inl e \<Rightarrow> (Some e, g1, r1)
         | Inr r2 \<Rightarrow>
             (None,
              g1\<lparr>packingScene :=
                   removeObjects (objects g1) [0..<nat (6 * numLods g1)] (packingScene g1)\<rparr>,
              r2\<lparr>renderTarget := currentRenderTarget, toneMapping := toneMapping0,
                 toneMappingExposure := toneMappingExposure0,
                 gammaInput := gammaInput0, gammaOutput := gammaOutput0\<rparr>))"

text \<open>\<^verbatim>\<open>update\<close>: the three steps in order; the atlas is returned when none throws.\<close>

definition update ::
  "(nat \<Rightarrow> frame \<Rightarrow> error + frame) \<Rightarrow> render_target \<Rightarrow> pmrem \<Rightarrow> renderer
     \<Rightarrow> (error + render_target option) \<times> pmrem \<times> renderer" where
  "update pass cubeTarget g r =
     (let g1 = setup_pmrem cubeTarget g
      in case generateMipmaps pass cubeTarget g1 r of
           (Some e, g2, r2) \<Rightarrow> (Inl e, g2, r2)
         | (None, g2, r2) \<Rightarrow>
             (case packMipmaps pass g2 r2 of
                (Some e, g3, r3) \<Rightarrow> (Inl e, g3, r3)
              | (None, g3, r3) \<Rightarrow> (Inr (cubeUVRenderTarget g3), g3, r3)))"



text \<open>A source cubemap of a given face size, and a renderer as an application may have
  configured it, for the concrete runs below.\<close>

definition cubemap :: "int \<Rightarrow> render_target" where
  "cubemap n =
     \<lparr> width = n, height = n,
       texture = \<lparr> tex_name = ''environment'',
                   tex_params = \<lparr> format = 1023, magFilter = LinearFilter,
                                  minFilter = LinearFilter, type = 1009,
                                  generateMipmaps = False, anisotropy = 1,
                                  encoding = 3000 \<rparr>,
                   tex_mapping = CubeReflectionMapping \<rparr> \<rparr>"


section \<open>Camera controls: ControlsMixin\<close>

subsection \<open>Constants and JavaScript number operations\<close>

datatype InteractionPromptStrategy = AUTO | WHEN_FOCUSED | NONE

datatype InteractionPolicy = ALWAYS_ALLOW | ALLOW_WHEN_FOCUSED

text \<open>\<^verbatim>\<open>ChangeSource\<close> of the controller: a change comes from the user or from elsewhere.\<close>

datatype ChangeSource = USER_INTERACTION | NO_INTERACTION

definition DEFAULT_FIELD_OF_VIEW :: string where
  "DEFAULT_FIELD_OF_VIEW = ''auto''"

definition DEFAULT_INTERACTION_PROMPT_THRESHOLD :: real where
  "DEFAULT_INTERACTION_PROMPT_THRESHOLD = 3000"

definition INTERACTION_PROMPT :: string where
  "INTERACTION_PROMPT = ''Use mouse, touch or arrow keys to control the camera!''"

text \<open>\<^verbatim>\<open>DEFAULT_FOV_DEG\<close> is imported from the model component, which is not part of the
  sources; it is the parameter \<open>fovDeg\<close> of everything that depends on it.\<close>

definition HALF_FIELD_OF_VIEW_RADIANS :: "real \<Rightarrow> real" where
  "HALF_FIELD_OF_VIEW_RADIANS fovDeg = (fovDeg / 2) * pi / 180"

text \<open>
  The bucket expressions of \<^verbatim>\<open>$updateAria\<close> are modelled with the rounding of IEEE
  double arithmetic, since their result depends on it at the bucket boundaries. A double
  is the real number it stands for. \<open>fl\<close> rounds a real to the nearest double, ties to
  the even significand of 53 bits (overflow and the subnormal range are left out: the
  angles are far from both). \<open>MATH_PI\<close> is the double \<^verbatim>\<open>Math.PI\<close>. Sums and quotients
  are rounded; \<^verbatim>\<open>%\<close>, \<^verbatim>\<open>Math.floor\<close> and the arithmetic on the small integers are exact
  in doubles.
\<close>

definition round_half_even :: "real \<Rightarrow> int" where
  "round_half_even y =
     (let f = \<lfloor>y\<rfloor>; d = y - of_int f
      in if d < 1 / 2 then f else if 1 / 2 < d then f + 1
         else if even f then f else f + 1)"

definition fl :: "real \<Rightarrow> real" where
  "fl x =
     (if x = 0 then 0
      else let e = \<lfloor>log 2 \<bar>x\<bar>\<rfloor>; u = 2 powr (of_int e - 52)
           in of_int (round_half_even (x / u)) * u)"

definition MATH_PI :: real where
  "MATH_PI = 884279719003555 / 281474976710656"

definition HALF_PI :: real where
  "HALF_PI = fl (MATH_PI / 2)"

definition THIRD_PI :: real where
  "THIRD_PI = fl (MATH_PI / 3)"

definition QUARTER_PI :: real where
  "QUARTER_PI = fl (HALF_PI / 2)"

definition PHI :: real where
  "PHI = fl (2 * MATH_PI)"

definition AZIMUTHAL_QUADRANT_LABELS :: "string list" where
  "AZIMUTHAL_QUADRANT_LABELS = [''front'', ''right'', ''back'', ''left'']"

definition POLAR_TRIENT_LABELS :: "string list" where
  "POLAR_TRIENT_LABELS = [''upper-'', [], ''lower-'']"

text \<open>The remainder operator \<^verbatim>\<open>%\<close> of JavaScript on finite numbers with a divisor
  other than zero: the quotient is truncated towards zero, so the result has the sign of
  the dividend. \<open>js_rem_int\<close> is the same operator on integer-valued numbers.\<close>

definition js_trunc :: "real \<Rightarrow> int" where
  "js_trunc x = (if x < 0 then \<lceil>x\<rceil> else \<lfloor>x\<rfloor>)"

definition js_rem :: "real \<Rightarrow> real \<Rightarrow> real" where
  "js_rem x y = x - y * of_int (js_trunc (x / y))"

definition js_rem_int :: "int \<Rightarrow> int \<Rightarrow> int" where
  "js_rem_int a b = a - b * js_trunc (of_int a / of_int b)"

text \<open>Reading an array of strings at a number inside a template literal: an index
  outside the array gives \<^verbatim>\<open>undefined\<close>, which prints as that word.\<close>

definition label_at :: "string list \<Rightarrow> int \<Rightarrow> string" where
  "label_at labels i = (if 0 \<le> i \<and> nat i < length labels then labels ! nat i else ''undefined'')"

text \<open>The two bucket expressions of \<^verbatim>\<open>$updateAria\<close>, which the source writes out once
  for the last and once for the current angle.\<close>

definition azimuthalQuadrant :: "real \<Rightarrow> int" where
  "azimuthalQuadrant theta =
     js_rem_int (4 + \<lfloor>fl (fl (js_rem theta PHI + QUARTER_PI) / HALF_PI)\<rfloor>) 4"

definition polarTrient :: "real \<Rightarrow> int" where
  "polarTrient phi = \<lfloor>fl (phi / THIRD_PI)\<rfloor>"

subsection \<open>The element's state\<close>

record spherical =
  theta :: real
  phi :: real
  radius :: real

text \<open>
  Modelled from the spec: \<^verbatim>\<open>SmoothControls\<close>, the smooth camera controller, is imported
  from a component that is not part of the sources; the spec describes it as exposing
  goal setters, a per-frame interpolation towards the goals, constraint clamping and a
  stream of change events. Its state here is what the mixin hands to it and reads from
  it: the options and intrinsics it was given, the last goal field of view
  (\<^verbatim>\<open>setFieldOfView\<close>), the number of \<^verbatim>\<open>jumpToGoal\<close> calls, and the values its getters
  return (\<^verbatim>\<open>getFieldOfView\<close>, \<^verbatim>\<open>getCameraSpherical\<close>, \<^verbatim>\<open>getTarget\<close>). How it moves
  the camera towards a goal, and how it clamps one, is not modelled.
\<close>

record smooth_controls =
  sc_interactionEnabled :: bool
  sc_interactionPolicy :: InteractionPolicy
  sc_maximumRadius :: real
  sc_maximumFieldOfView :: real
  sc_near :: real
  sc_far :: real
  sc_aspect :: real
  sc_goalFieldOfView :: real
  sc_jumps :: nat
  sc_fieldOfView :: real
  sc_spherical :: spherical
  sc_target :: vec3

definition jumpToGoal :: "smooth_controls \<Rightarrow> smooth_controls" where
  "jumpToGoal c = c\<lparr>sc_jumps := sc_jumps c + 1\<rparr>"

text \<open>
  The fields of the element: its observed properties, the private fields of the mixin,
  the class \<^verbatim>\<open>visible\<close> of the prompt element, and what the mixin reads and writes of
  the base class, the scene and the canvas (whether the model is loaded and when, the
  element's own label, whether the element is the active element, the canvas label and
  its focus and blur listeners, the scene's aspect, the model's framing values, the
  pivot). \<open>pendingJumps\<close> counts the continuations that \<^verbatim>\<open>updated\<close> has queued as
  microtasks, \<open>renders\<close> the calls of \<^verbatim>\<open>$needsRender\<close>, and \<open>cameraChanges\<close> lists the
  \<^verbatim>\<open>camera-change\<close> events dispatched.
\<close>

record element =
  cameraControls :: bool
  fieldOfView :: string
  interactionPromptThreshold :: real
  interactionPrompt :: InteractionPromptStrategy
  interactionPolicy :: InteractionPolicy
  promptElementVisible :: bool
  userPromptedOnce :: bool
  waitingToPromptUser :: bool
  shouldPromptUserToInteract :: bool
  controls :: smooth_controls
  framedFieldOfView :: "real option"
  lastSpherical :: spherical
  jumpCamera :: bool
  promptElement_visible :: bool
  loaded :: bool
  loadedTime :: real
  ariaLabel :: string
  hasFocus :: bool
  canvas_ariaLabel :: string
  canvas_onfocus :: bool
  canvas_onblur :: bool
  scene_aspect :: real
  model_idealCameraDistance :: real
  model_fieldOfViewAspect :: real
  pivotCenter :: vec3
  pivot_rotation_y :: real
  scene_rotation :: real
  pendingJumps :: nat
  renders :: nat
  cameraChanges :: "ChangeSource list"

text \<open>The bounding rectangles that \<^verbatim>\<open>$tick\<close> reads from the page layout.\<close>

record layout =
  viewer_left :: real
  viewer_width :: real
  prompt_left :: real
  prompt_width :: real

datatype property = P_cameraControls | P_interactionPrompt | P_interactionPolicy | P_src

subsection \<open>The handlers\<close>

text \<open>Each handler of the mixin first calls the base class's handler of the same name.
  The base class is not part of the sources and these calls are left out, as are the
  \<^verbatim>\<open>requestUpdate\<close> calls of \<^verbatim>\<open>$onModelLoad\<close> and \<^verbatim>\<open>jumpCameraToGoal\<close>: the property
  update they ask for is an event of its own.\<close>

definition deferInteractionPrompt :: "element \<Rightarrow> element" where
  "deferInteractionPrompt s =
     (let s1 = s\<lparr>waitingToPromptUser := False, promptElementVisible := False,
                 promptElement_visible := False\<rparr>
      in if userPromptedOnce s1 then s1\<lparr>shouldPromptUserToInteract := False\<rparr> else s1)"

definition onFocus :: "element \<Rightarrow> element" where
  "onFocus s =
     (let s1 = (if canvas_ariaLabel s \<noteq> ariaLabel s
                then s\<lparr>canvas_ariaLabel := ariaLabel s\<rparr> else s)
      in if shouldPromptUserToInteract s1 then s1\<lparr>waitingToPromptUser := True\<rparr> else s1)"

definition onBlur :: "element \<Rightarrow> element" where
  "onBlur s =
     s\<lparr>waitingToPromptUser := False, promptElementVisible := False,
       promptElement_visible := False\<rparr>"

text \<open>\<^verbatim>\<open>$tick(time, delta)\<close>. The controller's own \<^verbatim>\<open>update\<close> is the parameter
  \<open>advance\<close>; the change events it may dispatch are events of their own below.\<close>

definition tick ::
  "(real \<Rightarrow> real \<Rightarrow> smooth_controls \<Rightarrow> smooth_controls) \<Rightarrow> layout \<Rightarrow> real \<Rightarrow> real
     \<Rightarrow> element \<Rightarrow> element" where
  "tick advance rects time delta s =
     (let s1 = (if waitingToPromptUser s \<and> interactionPrompt s \<noteq> NONE then
                  (if loaded s \<and> time > loadedTime s + interactionPromptThreshold s then
                     s\<lparr>canvas_ariaLabel := INTERACTION_PROMPT,
                       userPromptedOnce := True,
                       waitingToPromptUser := False,
                       promptElementVisible := True,
                       promptElement_visible := True\<rparr>
                   else s)
                else s);
          s2 = (if promptElementVisible s1 then
                  let modelViewerRectCenter = viewer_left rects + viewer_width rects / 2;
                      promptRectCenter = prompt_left rects + prompt_width rects / 2;
                      promptOffset = modelViewerRectCenter - promptRectCenter
                  in s1\<lparr>renders := renders s1 + 1,
                        pivot_rotation_y := promptOffset * (- 0.01)\<rparr>
                else s1);
          s3 = s2\<lparr>controls := advance time delta (controls s2)\<rparr>;
          target = sc_target (controls s3)
      in if pivotCenter s3 \<noteq> target
         then s3\<lparr>pivotCenter := target, scene_rotation := pivot_rotation_y s3\<rparr>
         else s3)"

text \<open>\<^verbatim>\<open>updated(changedProperties)\<close>, run after the properties have taken their new
  values; \<open>changed\<close> is the key set of the map.\<close>

definition updated :: "property set \<Rightarrow> element \<Rightarrow> element" where
  "updated changed s =
     (let s1 = (if P_cameraControls \<in> changed then
                  (if cameraControls s then
                     let a = s\<lparr>controls := (controls s)\<lparr>sc_interactionEnabled := True\<rparr>\<rparr>;
                         b = (if interactionPrompt a = AUTO
                              then a\<lparr>waitingToPromptUser := True\<rparr> else a)
                     in b\<lparr>canvas_onfocus := True, canvas_onblur := True\<rparr>
                   else
                     deferInteractionPrompt
                       (s\<lparr>canvas_onfocus := False, canvas_onblur := False,
                          controls := (controls s)\<lparr>sc_interactionEnabled := False\<rparr>\<rparr>))
                else s);
          s2 = (if P_interactionPrompt \<in> changed then
                  (if interactionPrompt s1 = AUTO \<and> cameraControls s1
                   then s1\<lparr>waitingToPromptUser := True\<rparr> else s1)
                else s1);
          s3 = (if P_interactionPolicy \<in> changed then
                  s2\<lparr>controls := (controls s2)\<lparr>sc_interactionPolicy := interactionPolicy s2\<rparr>\<rparr>
                else s2);
          s4 = (if P_src \<in> changed then
                  (deferInteractionPrompt s3)\<lparr>waitingToPromptUser := True\<rparr>
                else s3)
      in if jumpCamera s4 then s4\<lparr>pendingJumps := pendingJumps s4 + 1\<rparr> else s4)"

text \<open>The continuation queued by \<^verbatim>\<open>updated\<close>, and \<^verbatim>\<open>jumpCameraToGoal\<close>.\<close>

definition jumpContinuation :: "element \<Rightarrow> element" where
  "jumpContinuation s =
     (if pendingJumps s = 0 then s
      else s\<lparr>pendingJumps := pendingJumps s - 1,
             controls := jumpToGoal (controls s), jumpCamera := False\<rparr>)"

definition jumpCameraToGoal :: "element \<Rightarrow> element" where
  "jumpCameraToGoal s = s\<lparr>jumpCamera := True\<rparr>"

definition updateCamera :: "real \<Rightarrow> element \<Rightarrow> element" where
  "updateCamera fovDeg s =
     (let aspect = scene_aspect s;
          idealCameraDistance = model_idealCameraDistance s;
          fieldOfViewAspect = model_fieldOfViewAspect s;
          maximumRadius = idealCameraDistance * 2;
          modelRadius = idealCameraDistance * sin (HALF_FIELD_OF_VIEW_RADIANS fovDeg);
          s1 = s\<lparr>controls := (controls s)\<lparr>sc_maximumRadius := maximumRadius,
                                             sc_near := 0,
                                             sc_far := maximumRadius + modelRadius,
                                             sc_aspect := aspect\<rparr>\<rparr>;
          s2 = (if fieldOfView s1 = DEFAULT_FIELD_OF_VIEW then
                  let zoom = (case framedFieldOfView s1 of
                                Some framed \<Rightarrow> sc_fieldOfView (controls s1) / framed
                              | None \<Rightarrow> 1);
                      vertical = tan (HALF_FIELD_OF_VIEW_RADIANS fovDeg)
                                 * max 1 (fieldOfViewAspect / aspect);
                      framed' = 2 * arctan vertical * 180 / pi
                  in s1\<lparr>framedFieldOfView := Some framed',
                        controls := (controls s1)\<lparr>sc_maximumFieldOfView := framed',
                                                   sc_goalFieldOfView := zoom * framed'\<rparr>\<rparr>
                else s1)
      in s2\<lparr>controls := jumpToGoal (controls s2)\<rparr>)"

definition updateAria :: "element \<Rightarrow> element" where
  "updateAria s =
     (let lastTheta = theta (lastSpherical s);
          lastPhi = phi (lastSpherical s);
          current = sc_spherical (controls s);
          s1 = s\<lparr>lastSpherical := current\<rparr>
      in if hasFocus s1 then
           let lastAzimuthalQuadrant = azimuthalQuadrant lastTheta;
               azimuthalQuadrant' = azimuthalQuadrant (theta current);
               lastPolarTrient = polarTrient lastPhi;
               polarTrient' = polarTrient (phi current)
           in if azimuthalQuadrant' \<noteq> lastAzimuthalQuadrant \<or> polarTrient' \<noteq> lastPolarTrient
              then s1\<lparr>canvas_ariaLabel :=
                         ''View from stage '' @ label_at POLAR_TRIENT_LABELS polarTrient'
                           @ label_at AZIMUTHAL_QUADRANT_LABELS azimuthalQuadrant'\<rparr>
              else s1
         else s1)"

definition onResize :: "real \<Rightarrow> element \<Rightarrow> element" where
  "onResize fovDeg s = updateCamera fovDeg s"

definition onModelLoad :: "real \<Rightarrow> element \<Rightarrow> element" where
  "onModelLoad fovDeg s =
     (let s1 = updateCamera fovDeg s in s1\<lparr>controls := jumpToGoal (controls s1)\<rparr>)"

definition onChange :: "ChangeSource \<Rightarrow> element \<Rightarrow> element" where
  "onChange source s =
     (let s1 = updateAria s;
          s2 = s1\<lparr>renders := renders s1 + 1\<rparr>;
          s3 = (if source = USER_INTERACTION then deferInteractionPrompt s2 else s2)
      in s3\<lparr>cameraChanges := cameraChanges s3 @ [source]\<rparr>)"

subsection \<open>Events and runs\<close>

text \<open>What can reach the mixin: the canvas's focus and blur events (delivered while the
  listeners are registered), a frame, a change event of the controller, a property
  update, a resize, a model load, a call of \<^verbatim>\<open>jumpCameraToGoal\<close> and a microtask turn.\<close>

datatype event =
  Focus
  | Blur
  | Tick "real \<Rightarrow> real \<Rightarrow> smooth_controls \<Rightarrow> smooth_controls" layout real real
  | Change ChangeSource
  | Updated "property set"
  | Resize
  | ModelLoad
  | JumpCameraToGoal
  | Microtask

fun step :: "real \<Rightarrow> event \<Rightarrow> element \<Rightarrow> element" where
  "step fovDeg Focus s = (if canvas_onfocus s then onFocus s else s)"
| "step fovDeg Blur s = (if canvas_onblur s then onBlur s else s)"
| "step fovDeg (Tick advance rects time delta) s = tick advance rects time delta s"
| "step fovDeg (Change source) s = onChange source s"
| "step fovDeg (Updated changed) s = updated changed s"
| "step fovDeg Resize s = onResize fovDeg s"
| "step fovDeg ModelLoad s = onModelLoad fovDeg s"
| "step fovDeg JumpCameraToGoal s = jumpCameraToGoal s"
| "step fovDeg Microtask s = jumpContinuation s"

text \<open>The states an element goes through, the first one included.\<close>

fun run :: "real \<Rightarrow> event list \<Rightarrow> element \<Rightarrow> element list" where
  "run fovDeg [] s = [s]"
| "run fovDeg (e # es) s = s # run fovDeg es (step fovDeg e s)"

fun focus_blur_or_tick :: "event \<Rightarrow> bool" where
  "focus_blur_or_tick Focus = True"
| "focus_blur_or_tick Blur = True"
| "focus_blur_or_tick (Tick advance rects time delta) = True"
| "focus_blur_or_tick e = False"

text \<open>An element as its field initialisers leave it, around a given controller state
  and label, with a model loaded at time 0 and a square scene; and a controller state
  and a layout for the concrete runs below.\<close>

definition still_controls :: smooth_controls where
  "still_controls =
     \<lparr> sc_interactionEnabled = False, sc_interactionPolicy = ALWAYS_ALLOW,
       sc_maximumRadius = 0, sc_maximumFieldOfView = 45, sc_near = 0, sc_far = 0,
       sc_aspect = 1, sc_goalFieldOfView = 45, sc_jumps = 0, sc_fieldOfView = 45,
       sc_spherical = \<lparr> theta = 0, phi = 0, radius = 1 \<rparr>, sc_target = (0, 0, 0) \<rparr>"

definition new_element :: element where
  "new_element =
     \<lparr> cameraControls = False,
       fieldOfView = DEFAULT_FIELD_OF_VIEW,
       interactionPromptThreshold = DEFAULT_INTERACTION_PROMPT_THRESHOLD,
       interactionPrompt = AUTO,
       interactionPolicy = ALWAYS_ALLOW,
       promptElementVisible = False,
       userPromptedOnce = False,
       waitingToPromptUser = False,
       shouldPromptUserToInteract = True,
       controls = still_controls,
       framedFieldOfView = None,
       lastSpherical = \<lparr> theta = 0, phi = 0, radius = 1 \<rparr>,
       jumpCamera = False,
       promptElement_visible = False,
       loaded = True,
       loadedTime = 0,
       ariaLabel = ''A 3D model'',
       hasFocus = False,
       canvas_ariaLabel = ''A 3D model'',
       canvas_onfocus = False,
       canvas_onblur = False,
       scene_aspect = 1,
       model_idealCameraDistance = 1,
       model_fieldOfViewAspect = 1,
       pivotCenter = (0, 0, 0),
       pivot_rotation_y = 0,
       scene_rotation = 0,
       pendingJumps = 0,
       renders = 0,
       cameraChanges = [] \<rparr>"

definition centred :: layout where
  "centred = \<lparr> viewer_left = 0, viewer_width = 300, prompt_left = 100, prompt_width = 100 \<rparr>"

definition no_motion :: "real \<Rightarrow> real \<Rightarrow> smooth_controls \<Rightarrow> smooth_controls" where
  "no_motion time delta c = c"

section \<open>Auxiliary definitions for the proofs\<close>

text \<open>The cube LOD list after the loop of \<^verbatim>\<open>setup\<close>, as a function of the list before
  it: the loop reads nothing else of the generator when it decides to allocate.\<close>

fun lodsAfter :: "int \<Rightarrow> target_params \<Rightarrow> nat list \<Rightarrow> render_target list \<Rightarrow> render_target list" where
  "lodsAfter sz p [] ls = ls"
| "lodsAfter sz p (i # is) ls =
     lodsAfter sz p is
       (if length ls \<le> i \<and> 2 ^ i \<noteq> sz then ls @ [newCubeTarget (2 ^ i) p i] else ls)"

definition setup_params :: "render_target \<Rightarrow> target_params" where
  "setup_params cubeTarget =
     \<lparr> format = format (tex_params (texture cubeTarget)),
       magFilter = NearestFilter, minFilter = NearestFilter,
       type = type (tex_params (texture cubeTarget)),
       generateMipmaps = False,
       anisotropy = anisotropy (tex_params (texture cubeTarget)),
       encoding = encoding (tex_params (texture cubeTarget)) \<rparr>"

definition atlas_ok :: "pmrem \<Rightarrow> bool" where
  "atlas_ok g \<longleftrightarrow>
     numLods g = 8 \<and>
     (\<exists>t. cubeUVRenderTarget g = Some t \<and> width t = 774 \<and> height t = 1054)"







text \<open>Elements along one run: camera controls switched on (the prompt is waiting), the
  first frame after 3001 ms (the prompt is shown), and a user interaction after that (the
  prompt is deferred).\<close>

definition waiting_element :: element where
  "waiting_element = updated {P_cameraControls} (new_element\<lparr>cameraControls := True\<rparr>)"

definition prompted_element :: element where
  "prompted_element = tick no_motion centred 3001 16 waiting_element"

definition suppressed_element :: element where
  "suppressed_element = onChange USER_INTERACTION prompted_element"

definition prompt_hidden :: "element \<Rightarrow> bool" where
  "prompt_hidden s \<longleftrightarrow>
     \<not> shouldPromptUserToInteract s \<and> \<not> waitingToPromptUser s
     \<and> \<not> promptElementVisible s \<and> \<not> promptElement_visible s"


text \<open>An element framed at 30 degrees that the user has zoomed in to 15 degrees.\<close>

definition zoomed_element :: element where
  "zoomed_element =
     new_element\<lparr>framedFieldOfView := Some 30,
                 controls := still_controls\<lparr>sc_fieldOfView := 15\<rparr>\<rparr>"

section \<open>Properties of the shaders\<close>

text \<open>
  Claim C8. The mapping from a tile-local uv pair and a face index to a direction is the
  same function in the downsample (mipmap) shader and in the packing shader: for every
  uv and every face index (the six faces 0..5 and any other integer) both return the
  same vector.
\<close>

theorem getDirection_shaders_agree:
  "getDirection_mipmap uv face = getDirection_packing uv face"
  by (simp add: getDirection_mipmap_def getDirection_packing_def)

text \<open>
  Claim C10. For every direction, the zero vector and vectors with tied magnitudes
  included, \<^verbatim>\<open>getFace\<close> returns one of 0..5 and never the initial -1. When the x and
  z magnitudes tie, the result is decided by the comparison of z with y; when the larger
  of the x and z magnitudes ties with the y magnitude, the result is a y face (1 or 4);
  the zero vector is classified as face 4.
\<close>

theorem getFace_range:
  "getFace (x, y, z) \<in> {0, 1, 2, 3, 4, 5} \<and> getFace (x, y, z) \<noteq> - 1
   \<and> (\<bar>x\<bar> = \<bar>z\<bar> \<longrightarrow>
        getFace (x, y, z) =
          (if \<bar>z\<bar> > \<bar>y\<bar> then (if z > 0 then 2 else 5) else (if y > 0 then 1 else 4)))
   \<and> (max \<bar>x\<bar> \<bar>z\<bar> = \<bar>y\<bar> \<longrightarrow> getFace (x, y, z) = (if y > 0 then 1 else 4))
   \<and> getFace (0, 0, 0) = 4"
  by (simp add: getFace_def Let_def max_def)

theorem getFace_range_witness:
  "getFace (1, 2, - 1) = 1 \<and> getFace (3, 1, - 3) = 5 \<and> getFace (0, 0, 0) = 4"
  using getFace_range [of 1 2 "- 1"] getFace_range [of 3 1 "- 3"]
  by simp

section \<open>Properties of \<^verbatim>\<open>setup\<close>\<close>

lemma setupLods_keeps:
  "numLods (setupLods c p js off g) = numLods g
   \<and> cubeUVRenderTarget (setupLods c p js off g) = cubeUVRenderTarget g
   \<and> cubeCamera (setupLods c p js off g) = cubeCamera g
   \<and> flatCamera (setupLods c p js off g) = flatCamera g"
  by (induction js arbitrary: off g) (simp_all add: Let_def addLodObjects_def)

lemma cubeLods_setupLods:
  "cubeLods (setupLods c p js off g) = lodsAfter (width c) p js (cubeLods g)"
  by (induction js arbitrary: off g) (simp_all add: Let_def addLodObjects_def)

lemma lod_count: "[0..<8 + 1] = [0..<9]"
  by simp

lemma lod_indices: "[0..<9] = [0, 1, 2, 3, 4, 5, 6, 7, 8]"
  by (simp add: upt_conv_Cons)

lemma cubeLods_setup:
  "cubeLods (setup_pmrem c g) = lodsAfter (width c) (setup_params c) [0..<9] (cubeLods g)"
  unfolding setup_pmrem_def Let_def lod_count
  by (simp add: setupLods_keeps cubeLods_setupLods setup_params_def
        del: lodsAfter.simps setupLods.simps upt_Suc)



lemma setup_first: "numLods g \<noteq> 8 \<Longrightarrow> atlas_ok (setup_pmrem c g)"
  unfolding setup_pmrem_def Let_def
  by (simp add: setupLods_keeps atlas_ok_def del: setupLods.simps)

lemma setup_again: "atlas_ok g \<Longrightarrow> atlas_ok (setup_pmrem c g)"
  unfolding setup_pmrem_def Let_def
  by (simp add: setupLods_keeps atlas_ok_def del: setupLods.simps)

lemma setups_atlas_ok: "atlas_ok g \<Longrightarrow> atlas_ok (setups cs g)"
  by (induction cs arbitrary: g) (simp_all add: setups_def setup_again)

text \<open>
  Claim C4. After \<^verbatim>\<open>setup\<close> has run once or more, for source cubemaps of any sizes, the
  generator holds an atlas render target whose width is \<open>3 * (2 ^ numLods + 2)\<close> and
  whose height is \<open>4 * numLods + 2 * (2 ^ (numLods + 1) - 1)\<close>, with \<open>numLods = 8\<close>:
  774 by 1054.
\<close>

theorem atlas_dimensions:
  "\<exists>t. cubeUVRenderTarget (setups (c # cs) PMREMGenerator_new) = Some t
       \<and> numLods (setups (c # cs) PMREMGenerator_new) = 8
       \<and> width t = 3 * (2 ^ nat (numLods (setups (c # cs) PMREMGenerator_new)) + 2)
       \<and> height t = 4 * numLods (setups (c # cs) PMREMGenerator_new)
                     + 2 * (2 ^ (nat (numLods (setups (c # cs) PMREMGenerator_new)) + 1) - 1)
       \<and> width t = 774 \<and> height t = 1054"
proof -
  have "numLods PMREMGenerator_new \<noteq> 8"
    by (simp add: PMREMGenerator_new_def)
  then have "atlas_ok (setup_pmrem c PMREMGenerator_new)"
    by (rule setup_first)
  then have "atlas_ok (setups cs (setup_pmrem c PMREMGenerator_new))"
    by (rule setups_atlas_ok)
  then have "atlas_ok (setups (c # cs) PMREMGenerator_new)"
    by (simp add: setups_def)
  then show ?thesis
    by (auto simp: atlas_ok_def)
qed

text \<open>The atlas of a generator set up for a 256-texel and then a 512-texel source.\<close>

theorem atlas_dimensions_witness:
  "\<exists>t. cubeUVRenderTarget (setups [cubemap 256, cubemap 512] PMREMGenerator_new) = Some t
       \<and> width t = 774 \<and> height t = 1054"
  using atlas_dimensions [of "cubemap 256" "[cubemap 512]"] by blast




lemma width_cubemap: "width (cubemap n) = n"
  by (simp add: cubemap_def)

lemma width_newCubeTarget: "width (newCubeTarget s p i) = s"
  by (simp add: newCubeTarget_def)

lemma cubeLods_first_128:
  "cubeLods (setups [cubemap 128] PMREMGenerator_new) =
     map (\<lambda>i. newCubeTarget (2 ^ i) (setup_params (cubemap 128)) i) [0, 1, 2, 3, 4, 5, 6, 8]"
  by (simp add: setups_def cubeLods_setup lod_indices width_cubemap PMREMGenerator_new_def)

lemma cubeLods_second_128:
  "cubeLods (setups [cubemap 128, cubemap 128] PMREMGenerator_new) =
     cubeLods (setups [cubemap 128] PMREMGenerator_new)
       @ [newCubeTarget 256 (setup_params (cubemap 128)) 8]"
  using cubeLods_first_128
  by (simp add: setups_def cubeLods_setup lod_indices width_cubemap)

text \<open>
  Claim C5. The claim is that a second \<^verbatim>\<open>setup\<close> for a source of unchanged size
  allocates no render target. For a source of 128 texels the code does otherwise: the
  first call leaves eight cube LODs, of sizes 1 to 64 and 256 (the level of the source's
  own size is skipped without an entry), and the second call, for the same size,
  allocates a ninth one of 256 texels.
\<close>

theorem setup_again_same_size_allocates:
  "map width (cubeLods (setups [cubemap 128] PMREMGenerator_new))
     = [1, 2, 4, 8, 16, 32, 64, 256]
   \<and> map width (cubeLods (setups [cubemap 128, cubemap 128] PMREMGenerator_new))
     = [1, 2, 4, 8, 16, 32, 64, 256, 256]
   \<and> length (cubeLods (setups [cubemap 128, cubemap 128] PMREMGenerator_new))
     = length (cubeLods (setups [cubemap 128] PMREMGenerator_new)) + 1"
  unfolding cubeLods_second_128 unfolding cubeLods_first_128
  by (simp add: width_newCubeTarget)

section \<open>Properties of the render passes\<close>



















section \<open>Properties of the accessibility label\<close>

















section \<open>Properties of the interaction prompt\<close>

lemma waiting_fields:
  "waitingToPromptUser waiting_element \<and> interactionPrompt waiting_element = AUTO
   \<and> loaded waiting_element \<and> loadedTime waiting_element = 0
   \<and> interactionPromptThreshold waiting_element = 3000
   \<and> \<not> promptElementVisible waiting_element \<and> \<not> userPromptedOnce waiting_element
   \<and> shouldPromptUserToInteract waiting_element
   \<and> canvas_onfocus waiting_element \<and> canvas_onblur waiting_element"
  by (simp add: waiting_element_def updated_def new_element_def Let_def
      DEFAULT_INTERACTION_PROMPT_THRESHOLD_def)

lemma tick_prompt_fields:
  "waitingToPromptUser (tick a l t d s) =
     (waitingToPromptUser s \<and> \<not> (interactionPrompt s \<noteq> NONE \<and> loaded s
        \<and> t > loadedTime s + interactionPromptThreshold s))
   \<and> promptElementVisible (tick a l t d s) =
     (promptElementVisible s \<or> (waitingToPromptUser s \<and> interactionPrompt s \<noteq> NONE \<and> loaded s
        \<and> t > loadedTime s + interactionPromptThreshold s))
   \<and> promptElement_visible (tick a l t d s) =
     (promptElement_visible s \<or> (waitingToPromptUser s \<and> interactionPrompt s \<noteq> NONE \<and> loaded s
        \<and> t > loadedTime s + interactionPromptThreshold s))
   \<and> userPromptedOnce (tick a l t d s) =
     (userPromptedOnce s \<or> (waitingToPromptUser s \<and> interactionPrompt s \<noteq> NONE \<and> loaded s
        \<and> t > loadedTime s + interactionPromptThreshold s))
   \<and> shouldPromptUserToInteract (tick a l t d s) = shouldPromptUserToInteract s
   \<and> canvas_onfocus (tick a l t d s) = canvas_onfocus s
   \<and> canvas_onblur (tick a l t d s) = canvas_onblur s
   \<and> interactionPrompt (tick a l t d s) = interactionPrompt s
   \<and> loaded (tick a l t d s) = loaded s
   \<and> loadedTime (tick a l t d s) = loadedTime s
   \<and> interactionPromptThreshold (tick a l t d s) = interactionPromptThreshold s
   \<and> canvas_ariaLabel (tick a l t d s) =
     (if waitingToPromptUser s \<and> interactionPrompt s \<noteq> NONE \<and> loaded s
        \<and> t > loadedTime s + interactionPromptThreshold s
      then INTERACTION_PROMPT else canvas_ariaLabel s)"
  by (auto simp: tick_def Let_def)

lemma prompted_fields:
  "userPromptedOnce prompted_element \<and> promptElementVisible prompted_element
   \<and> shouldPromptUserToInteract prompted_element \<and> \<not> waitingToPromptUser prompted_element
   \<and> canvas_onfocus prompted_element \<and> canvas_onblur prompted_element
   \<and> interactionPrompt prompted_element = AUTO \<and> loaded prompted_element
   \<and> loadedTime prompted_element = 0 \<and> interactionPromptThreshold prompted_element = 3000"
  by (simp add: prompted_element_def tick_prompt_fields waiting_fields)

lemma onBlur_fields:
  "\<not> waitingToPromptUser (onBlur s) \<and> \<not> promptElementVisible (onBlur s)
   \<and> \<not> promptElement_visible (onBlur s)
   \<and> shouldPromptUserToInteract (onBlur s) = shouldPromptUserToInteract s
   \<and> userPromptedOnce (onBlur s) = userPromptedOnce s
   \<and> canvas_onfocus (onBlur s) = canvas_onfocus s
   \<and> canvas_onblur (onBlur s) = canvas_onblur s
   \<and> interactionPrompt (onBlur s) = interactionPrompt s
   \<and> loaded (onBlur s) = loaded s \<and> loadedTime (onBlur s) = loadedTime s
   \<and> interactionPromptThreshold (onBlur s) = interactionPromptThreshold s"
  by (simp add: onBlur_def)

lemma onFocus_fields:
  "waitingToPromptUser (onFocus s) = (waitingToPromptUser s \<or> shouldPromptUserToInteract s)
   \<and> promptElementVisible (onFocus s) = promptElementVisible s
   \<and> promptElement_visible (onFocus s) = promptElement_visible s
   \<and> shouldPromptUserToInteract (onFocus s) = shouldPromptUserToInteract s
   \<and> userPromptedOnce (onFocus s) = userPromptedOnce s
   \<and> canvas_onfocus (onFocus s) = canvas_onfocus s
   \<and> canvas_onblur (onFocus s) = canvas_onblur s
   \<and> interactionPrompt (onFocus s) = interactionPrompt s
   \<and> loaded (onFocus s) = loaded s \<and> loadedTime (onFocus s) = loadedTime s
   \<and> interactionPromptThreshold (onFocus s) = interactionPromptThreshold s"
  by (simp add: onFocus_def Let_def)

text \<open>An element whose prompt has been shown once (the flag is set) and has not been
  deferred: the prompt is still visible after a focus event, a blur hides it, and after a
  blur, a focus and a frame past the threshold it is visible again.\<close>

theorem prompt_shown_again:
  "userPromptedOnce prompted_element
   \<and> promptElementVisible (last (run 45 [Focus] prompted_element))
   \<and> \<not> promptElementVisible (last (run 45 [Blur] prompted_element))
   \<and> promptElementVisible
        (last (run 45 [Blur, Focus, Tick no_motion centred 3002 16] prompted_element))"
  by (simp add: prompted_fields onBlur_fields onFocus_fields tick_prompt_fields)

lemma step_hidden:
  "focus_blur_or_tick e \<Longrightarrow> prompt_hidden s \<Longrightarrow> prompt_hidden (step fovDeg e s)"
  by (cases e)
     (simp_all add: prompt_hidden_def onBlur_fields onFocus_fields tick_prompt_fields)

lemma step_prompted:
  "focus_blur_or_tick e \<Longrightarrow> userPromptedOnce s \<Longrightarrow> userPromptedOnce (step fovDeg e s)"
  by (cases e) (simp_all add: onBlur_fields onFocus_fields tick_prompt_fields)

lemma run_hidden:
  "\<forall>e\<in>set es. focus_blur_or_tick e \<Longrightarrow> prompt_hidden s \<Longrightarrow>
     \<forall>s'\<in>set (run fovDeg es s). prompt_hidden s'"
proof (induction es arbitrary: s)
  case Nil
  then show ?case by simp
next
  case (Cons e es)
  from Cons.prems(1) have e: "focus_blur_or_tick e" and es: "\<forall>e\<in>set es. focus_blur_or_tick e"
    by simp_all
  have "prompt_hidden (step fovDeg e s)"
    using e Cons.prems(2) by (rule step_hidden)
  with es have "\<forall>s'\<in>set (run fovDeg es (step fovDeg e s)). prompt_hidden s'"
    by (rule Cons.IH)
  with Cons.prems(2) show ?case by simp
qed

text \<open>
  Claim C1, as the code has it. Once the prompt has been shown (the prompted-once flag is
  set) and then deferred, so that the should-prompt flag is false and the prompt is
  neither waiting nor visible, no sequence of focus, blur and frame events shows it
  again: in no state of the run is the prompt visible, as a flag or as the class of the
  prompt element.
\<close>

theorem no_prompt_after_deferral:
  "userPromptedOnce s \<and> \<not> shouldPromptUserToInteract s \<and> \<not> waitingToPromptUser s
   \<and> \<not> promptElementVisible s \<and> \<not> promptElement_visible s
   \<and> (\<forall>e\<in>set es. focus_blur_or_tick e)
   \<Longrightarrow> \<forall>s'\<in>set (run fovDeg es s). \<not> promptElementVisible s' \<and> \<not> promptElement_visible s'"
  using run_hidden [of es s fovDeg] by (simp add: prompt_hidden_def)

lemma defer_fields:
  "\<not> waitingToPromptUser (deferInteractionPrompt s)
   \<and> \<not> promptElementVisible (deferInteractionPrompt s)
   \<and> \<not> promptElement_visible (deferInteractionPrompt s)
   \<and> shouldPromptUserToInteract (deferInteractionPrompt s) =
       (shouldPromptUserToInteract s \<and> \<not> userPromptedOnce s)
   \<and> userPromptedOnce (deferInteractionPrompt s) = userPromptedOnce s"
  by (simp add: deferInteractionPrompt_def Let_def)

lemma updateAria_fields:
  "waitingToPromptUser (updateAria s) = waitingToPromptUser s
   \<and> promptElementVisible (updateAria s) = promptElementVisible s
   \<and> promptElement_visible (updateAria s) = promptElement_visible s
   \<and> shouldPromptUserToInteract (updateAria s) = shouldPromptUserToInteract s
   \<and> userPromptedOnce (updateAria s) = userPromptedOnce s"
  by (simp add: updateAria_def Let_def)

lemma suppressed_fields:
  "userPromptedOnce suppressed_element \<and> \<not> shouldPromptUserToInteract suppressed_element
   \<and> \<not> waitingToPromptUser suppressed_element \<and> \<not> promptElementVisible suppressed_element
   \<and> \<not> promptElement_visible suppressed_element"
  by (simp add: suppressed_element_def onChange_def Let_def defer_fields updateAria_fields
      prompted_fields)

text \<open>A blur, a focus and a late frame after a user interaction has deferred the
  prompt.\<close>

theorem no_prompt_after_deferral_witness:
  "userPromptedOnce suppressed_element
   \<and> list_all (\<lambda>s'. \<not> promptElementVisible s' \<and> \<not> promptElement_visible s')
        (run 45 [Blur, Focus, Tick no_motion centred 9000 16] suppressed_element)"
proof -
  have "\<forall>s'\<in>set (run 45 [Blur, Focus, Tick no_motion centred 9000 16] suppressed_element).
          \<not> promptElementVisible s' \<and> \<not> promptElement_visible s'"
    using no_prompt_after_deferral
      [of suppressed_element "[Blur, Focus, Tick no_motion centred 9000 16]" 45]
    by (simp add: suppressed_fields)
  then show ?thesis
    by (simp add: list_all_iff suppressed_fields del: run.simps)
qed

lemma updated_latch:
  "shouldPromptUserToInteract (updated changed s) \<Longrightarrow> shouldPromptUserToInteract s"
  by (auto simp: updated_def Let_def defer_fields split: if_splits)

lemma updateCamera_latch:
  "shouldPromptUserToInteract (updateCamera fovDeg s) = shouldPromptUserToInteract s"
  by (simp add: updateCamera_def Let_def)

lemma onChange_latch:
  "shouldPromptUserToInteract (onChange source s) \<Longrightarrow> shouldPromptUserToInteract s"
  by (auto simp: onChange_def Let_def defer_fields updateAria_fields split: if_splits)

lemma step_latch:
  "shouldPromptUserToInteract (step fovDeg e s) \<Longrightarrow> shouldPromptUserToInteract s"
proof (cases e)
  case Focus
  then show "shouldPromptUserToInteract (step fovDeg e s) \<Longrightarrow> shouldPromptUserToInteract s"
    by (simp add: onFocus_fields split: if_splits)
next
  case Blur
  then show "shouldPromptUserToInteract (step fovDeg e s) \<Longrightarrow> shouldPromptUserToInteract s"
    by (simp add: onBlur_fields split: if_splits)
next
  case (Tick a l t d)
  then show "shouldPromptUserToInteract (step fovDeg e s) \<Longrightarrow> shouldPromptUserToInteract s"
    by (simp add: tick_prompt_fields)
next
  case (Change source)
  then show "shouldPromptUserToInteract (step fovDeg e s) \<Longrightarrow> shouldPromptUserToInteract s"
    by (simp add: onChange_latch)
next
  case (Updated changed)
  then show "shouldPromptUserToInteract (step fovDeg e s) \<Longrightarrow> shouldPromptUserToInteract s"
    by (simp add: updated_latch)
next
  case Resize
  then show "shouldPromptUserToInteract (step fovDeg e s) \<Longrightarrow> shouldPromptUserToInteract s"
    by (simp add: onResize_def updateCamera_latch)
next
  case ModelLoad
  then show "shouldPromptUserToInteract (step fovDeg e s) \<Longrightarrow> shouldPromptUserToInteract s"
    by (simp add: onModelLoad_def Let_def updateCamera_latch)
next
  case JumpCameraToGoal
  then show "shouldPromptUserToInteract (step fovDeg e s) \<Longrightarrow> shouldPromptUserToInteract s"
    by (simp add: jumpCameraToGoal_def)
next
  case Microtask
  then show "shouldPromptUserToInteract (step fovDeg e s) \<Longrightarrow> shouldPromptUserToInteract s"
    by (simp add: jumpContinuation_def split: if_splits)
qed

lemma updated_src:
  "P_src \<in> changed \<Longrightarrow>
     waitingToPromptUser (updated changed s) \<and> \<not> promptElementVisible (updated changed s)
     \<and> \<not> promptElement_visible (updated changed s)"
  by (simp add: updated_def Let_def defer_fields)

text \<open>
  Claim C2, as the code has it. When a source change is handled while the should-prompt
  flag is false, the prompt is waiting afterwards and hidden, and the flag is still
  false; and no event of the element turns a false should-prompt flag back to true.
\<close>

theorem source_change_waits_latch_stays:
  "(P_src \<in> changed \<and> \<not> shouldPromptUserToInteract s \<longrightarrow>
      waitingToPromptUser (updated changed s) \<and> \<not> promptElementVisible (updated changed s)
      \<and> \<not> promptElement_visible (updated changed s)
      \<and> \<not> shouldPromptUserToInteract (updated changed s))
   \<and> (\<not> shouldPromptUserToInteract s \<longrightarrow> \<not> shouldPromptUserToInteract (step fovDeg e s))"
  using updated_src [of changed s] updated_latch [of changed s] step_latch [of fovDeg e s]
  by blast

theorem source_change_waits_latch_stays_witness:
  "waitingToPromptUser (updated {P_src} suppressed_element)
   \<and> \<not> promptElementVisible (updated {P_src} suppressed_element)
   \<and> \<not> shouldPromptUserToInteract (updated {P_src} suppressed_element)
   \<and> \<not> shouldPromptUserToInteract (step 45 Focus suppressed_element)"
  using source_change_waits_latch_stays [of "{P_src}" suppressed_element 45 Focus]
  by (simp add: suppressed_fields)

text \<open>A source change on an element whose prompt was shown and then deferred by the
  user: the prompt waits again, the should-prompt flag stays false.\<close>

theorem latch_not_cleared_by_source_change:
  "\<not> shouldPromptUserToInteract suppressed_element
   \<and> waitingToPromptUser (step 45 (Updated {P_src}) suppressed_element)
   \<and> \<not> shouldPromptUserToInteract (step 45 (Updated {P_src}) suppressed_element)"
  by (simp add: suppressed_fields updated_def Let_def defer_fields)

text \<open>
  Claim C6, as the code has it. While the prompt is waiting and the strategy is not
  \<open>none\<close>, a frame shows the prompt exactly when the model is loaded and the frame's
  time is strictly greater than the load time plus the threshold; it then sets the
  prompted-once flag, stops waiting, and sets the canvas label to the prompt text.
  Otherwise the frame leaves the prompt state and the label as they are.
\<close>

theorem tick_shows_prompt_past_threshold:
  "waitingToPromptUser s \<and> interactionPrompt s \<noteq> NONE \<Longrightarrow>
     (loaded s \<and> time > loadedTime s + interactionPromptThreshold s \<longrightarrow>
        promptElementVisible (tick advance rects time delta s)
        \<and> promptElement_visible (tick advance rects time delta s)
        \<and> userPromptedOnce (tick advance rects time delta s)
        \<and> \<not> waitingToPromptUser (tick advance rects time delta s)
        \<and> canvas_ariaLabel (tick advance rects time delta s) = INTERACTION_PROMPT)
     \<and> (\<not> (loaded s \<and> time > loadedTime s + interactionPromptThreshold s) \<longrightarrow>
        promptElementVisible (tick advance rects time delta s) = promptElementVisible s
        \<and> promptElement_visible (tick advance rects time delta s) = promptElement_visible s
        \<and> userPromptedOnce (tick advance rects time delta s) = userPromptedOnce s
        \<and> waitingToPromptUser (tick advance rects time delta s)
        \<and> canvas_ariaLabel (tick advance rects time delta s) = canvas_ariaLabel s)"
  by (auto simp: tick_prompt_fields)

theorem tick_shows_prompt_past_threshold_witness:
  "promptElementVisible (tick no_motion centred 3001 16 waiting_element)
   \<and> userPromptedOnce (tick no_motion centred 3001 16 waiting_element)
   \<and> \<not> waitingToPromptUser (tick no_motion centred 3001 16 waiting_element)
   \<and> canvas_ariaLabel (tick no_motion centred 3001 16 waiting_element) = INTERACTION_PROMPT
   \<and> \<not> promptElementVisible (tick no_motion centred 2999 16 waiting_element)"
  using tick_shows_prompt_past_threshold [of waiting_element 3001 no_motion centred 16]
    tick_shows_prompt_past_threshold [of waiting_element 2999 no_motion centred 16]
  by (simp add: waiting_fields)

text \<open>A frame at exactly the load time plus the threshold (3000 ms after a load at 0)
  does not show the prompt.\<close>

theorem no_prompt_at_threshold:
  "waitingToPromptUser waiting_element \<and> interactionPrompt waiting_element \<noteq> NONE
   \<and> loaded waiting_element
   \<and> 3000 - loadedTime waiting_element \<ge> interactionPromptThreshold waiting_element
   \<and> \<not> promptElementVisible (tick no_motion centred 3000 16 waiting_element)
   \<and> waitingToPromptUser (tick no_motion centred 3000 16 waiting_element)"
  by (simp add: tick_prompt_fields waiting_fields)

section \<open>Properties of the camera framing\<close>

lemma framed_positive:
  assumes "0 < fovDeg" "fovDeg < 180"
  shows "0 < 2 * arctan (tan (HALF_FIELD_OF_VIEW_RADIANS fovDeg) * max 1 x) * 180 / pi"
proof -
  have "0 < HALF_FIELD_OF_VIEW_RADIANS fovDeg"
    using assms(1) by (simp add: HALF_FIELD_OF_VIEW_RADIANS_def)
  moreover have "HALF_FIELD_OF_VIEW_RADIANS fovDeg < pi / 2"
    using assms(2) pi_gt_zero by (simp add: HALF_FIELD_OF_VIEW_RADIANS_def)
  ultimately have "0 < tan (HALF_FIELD_OF_VIEW_RADIANS fovDeg)"
    by (rule tan_gt_zero)
  moreover have "0 < max 1 x" by simp
  ultimately have "0 < tan (HALF_FIELD_OF_VIEW_RADIANS fovDeg) * max 1 x"
    by (rule mult_pos_pos)
  then have "0 < arctan (tan (HALF_FIELD_OF_VIEW_RADIANS fovDeg) * max 1 x)"
    by (simp add: zero_less_arctan_iff)
  then show ?thesis by simp
qed

text \<open>
  Claim C3. With the field-of-view attribute at \<open>auto\<close>, \<^verbatim>\<open>$updateCamera\<close> stores
  the newly framed field of view \<open>f1\<close> and hands the controller the goal
  \<open>(c / f0) * f1\<close>, where \<open>c\<close> is the controller's current field of view and \<open>f0\<close>
  the framed value stored before; with no value stored before the factor is 1. For a
  default field of view between 0 and 180 degrees and a scene aspect other than zero,
  \<open>f1\<close> is positive, so the goal divided by the new framed value is the ratio
  \<open>c / f0\<close> from before the call. (A stored \<open>f0\<close> of zero and a scene aspect of zero
  are left out: JavaScript divides by zero there.)
\<close>

theorem updateCamera_keeps_zoom:
  "fieldOfView s = DEFAULT_FIELD_OF_VIEW \<Longrightarrow>
     (\<exists>f1. framedFieldOfView (updateCamera fovDeg s) = Some f1
        \<and> sc_maximumFieldOfView (controls (updateCamera fovDeg s)) = f1
        \<and> (\<forall>f0. framedFieldOfView s = Some f0 \<and> f0 \<noteq> 0 \<longrightarrow>
              sc_goalFieldOfView (controls (updateCamera fovDeg s))
                = (sc_fieldOfView (controls s) / f0) * f1)
        \<and> (framedFieldOfView s = None \<longrightarrow>
              sc_goalFieldOfView (controls (updateCamera fovDeg s)) = 1 * f1)
        \<and> (0 < fovDeg \<and> fovDeg < 180 \<and> scene_aspect s \<noteq> 0 \<longrightarrow>
              f1 = 2 * arctan (tan (HALF_FIELD_OF_VIEW_RADIANS fovDeg)
                               * max 1 (model_fieldOfViewAspect s / scene_aspect s)) * 180 / pi
              \<and> 0 < f1
              \<and> (\<forall>f0. framedFieldOfView s = Some f0 \<and> f0 \<noteq> 0 \<longrightarrow>
                    sc_goalFieldOfView (controls (updateCamera fovDeg s)) / f1
                      = sc_fieldOfView (controls s) / f0)
              \<and> (framedFieldOfView s = None \<longrightarrow>
                    sc_goalFieldOfView (controls (updateCamera fovDeg s)) / f1 = 1)))"
proof -
  assume auto: "fieldOfView s = DEFAULT_FIELD_OF_VIEW"
  define f1 where "f1 = 2 * arctan (tan (HALF_FIELD_OF_VIEW_RADIANS fovDeg)
                            * max 1 (model_fieldOfViewAspect s / scene_aspect s)) * 180 / pi"
  have a: "framedFieldOfView (updateCamera fovDeg s) = Some f1"
    using auto by (simp add: updateCamera_def Let_def f1_def)
  have b: "sc_maximumFieldOfView (controls (updateCamera fovDeg s)) = f1"
    using auto by (simp add: updateCamera_def Let_def f1_def jumpToGoal_def)
  have c: "sc_goalFieldOfView (controls (updateCamera fovDeg s))
             = (case framedFieldOfView s of
                  Some f0 \<Rightarrow> sc_fieldOfView (controls s) / f0 | None \<Rightarrow> 1) * f1"
    using auto
    by (simp add: updateCamera_def Let_def f1_def jumpToGoal_def split: option.splits)
  have g0: "\<forall>f0. framedFieldOfView s = Some f0 \<and> f0 \<noteq> 0 \<longrightarrow>
              sc_goalFieldOfView (controls (updateCamera fovDeg s))
                = (sc_fieldOfView (controls s) / f0) * f1"
    unfolding c by simp
  have gN: "framedFieldOfView s = None \<longrightarrow>
              sc_goalFieldOfView (controls (updateCamera fovDeg s)) = 1 * f1"
    unfolding c by simp
  have e: "0 < fovDeg \<and> fovDeg < 180 \<and> scene_aspect s \<noteq> 0 \<longrightarrow>
              f1 = 2 * arctan (tan (HALF_FIELD_OF_VIEW_RADIANS fovDeg)
                               * max 1 (model_fieldOfViewAspect s / scene_aspect s)) * 180 / pi
              \<and> 0 < f1
              \<and> (\<forall>f0. framedFieldOfView s = Some f0 \<and> f0 \<noteq> 0 \<longrightarrow>
                    sc_goalFieldOfView (controls (updateCamera fovDeg s)) / f1
                      = sc_fieldOfView (controls s) / f0)
              \<and> (framedFieldOfView s = None \<longrightarrow>
                    sc_goalFieldOfView (controls (updateCamera fovDeg s)) / f1 = 1)"
  proof
    assume h: "0 < fovDeg \<and> fovDeg < 180 \<and> scene_aspect s \<noteq> 0"
    then have pos: "0 < f1"
      unfolding f1_def using framed_positive by blast
    have r0: "\<forall>f0. framedFieldOfView s = Some f0 \<and> f0 \<noteq> 0 \<longrightarrow>
                    sc_goalFieldOfView (controls (updateCamera fovDeg s)) / f1
                      = sc_fieldOfView (controls s) / f0"
      unfolding c using pos by simp
    have rN: "framedFieldOfView s = None \<longrightarrow>
                    sc_goalFieldOfView (controls (updateCamera fovDeg s)) / f1 = 1"
      unfolding c using pos by simp
    show "f1 = 2 * arctan (tan (HALF_FIELD_OF_VIEW_RADIANS fovDeg)
                               * max 1 (model_fieldOfViewAspect s / scene_aspect s)) * 180 / pi
              \<and> 0 < f1
              \<and> (\<forall>f0. framedFieldOfView s = Some f0 \<and> f0 \<noteq> 0 \<longrightarrow>
                    sc_goalFieldOfView (controls (updateCamera fovDeg s)) / f1
                      = sc_fieldOfView (controls s) / f0)
              \<and> (framedFieldOfView s = None \<longrightarrow>
                    sc_goalFieldOfView (controls (updateCamera fovDeg s)) / f1 = 1)"
      by (intro conjI) (rule f1_def pos r0 rN)+
  qed
  show ?thesis
    by (intro exI [of _ f1] conjI) (rule a b g0 gN e)+
qed

lemma zoomed_fields:
  "fieldOfView zoomed_element = DEFAULT_FIELD_OF_VIEW
   \<and> framedFieldOfView zoomed_element = Some 30
   \<and> sc_fieldOfView (controls zoomed_element) = 15
   \<and> scene_aspect zoomed_element = 1"
  by (simp add: zoomed_element_def new_element_def)

theorem updateCamera_keeps_zoom_witness:
  "\<exists>f1. framedFieldOfView (updateCamera 45 zoomed_element) = Some f1 \<and> 0 < f1
        \<and> sc_goalFieldOfView (controls (updateCamera 45 zoomed_element)) = (15 / 30) * f1
        \<and> sc_goalFieldOfView (controls (updateCamera 45 zoomed_element)) / f1 = 15 / 30"
proof -
  from updateCamera_keeps_zoom [of zoomed_element 45] zoomed_fields
  obtain f1 where f: "framedFieldOfView (updateCamera 45 zoomed_element) = Some f1"
    and g: "\<forall>f0. framedFieldOfView zoomed_element = Some f0 \<and> f0 \<noteq> 0 \<longrightarrow>
              sc_goalFieldOfView (controls (updateCamera 45 zoomed_element))
                = (sc_fieldOfView (controls zoomed_element) / f0) * f1"
    and r: "(0::real) < 45 \<and> (45::real) < 180 \<and> scene_aspect zoomed_element \<noteq> 0 \<longrightarrow>
              0 < f1
              \<and> (\<forall>f0. framedFieldOfView zoomed_element = Some f0 \<and> f0 \<noteq> 0 \<longrightarrow>
                    sc_goalFieldOfView (controls (updateCamera 45 zoomed_element)) / f1
                      = sc_fieldOfView (controls zoomed_element) / f0)"
    by blast
  from g zoomed_fields
  have g': "sc_goalFieldOfView (controls (updateCamera 45 zoomed_element)) = (15 / 30) * f1"
    by simp
  from r zoomed_fields
  have r': "0 < f1 \<and> sc_goalFieldOfView (controls (updateCamera 45 zoomed_element)) / f1 = 15 / 30"
    by simp
  from f g' r' show ?thesis by blast
qed

end
